theory Spec2Isabelle
  imports Complex_Main "HOL-Library.Multiset"
begin

section \<open>Documents of the store\<close>

text \<open>
  The queries of \<^verbatim>\<open>queries.py\<close> are aggregation pipelines over three collections that
  \<^verbatim>\<open>data_loader.py\<close> fills: \<^verbatim>\<open>matches\<close>, \<^verbatim>\<open>players\<close> and \<^verbatim>\<open>player_attributes\<close>.
  A match document has the fields that \<^verbatim>\<open>load_matches\<close> writes and the \<^verbatim>\<open>_id\<close> the
  store adds. The loader copies the columns as they are, so a goal count may be null:
  \<open>None\<close> is BSON null. Team names, seasons and league names are strings. Integers are
  unbounded, as Python's are. The \<^verbatim>\<open>result\<close> field is \<^verbatim>\<open>_determine_result\<close> of the two
  goal counts and is not stored a second time in the record.
\<close>

datatype bson = BNull | BInt int | BStr string | BDate int | BObjectId nat

record match_doc =
  doc_id :: nat
  match_api_id :: "int option"
  country_id :: "int option"
  country_name :: "string option"
  league_id :: "int option"
  league_name :: string
  season :: string
  stage :: "int option"
  match_date :: "int option"
  home_team_api_id :: "int option"
  home_team_name :: string
  away_team_api_id :: "int option"
  away_team_name :: string
  home_team_goal :: "int option"
  away_team_goal :: "int option"

record player_doc =
  player_api_id :: int
  player_name :: string
  height :: "rat option"
  weight :: "int option"

record attr_doc =
  attr_player_api_id :: int
  date :: "int option"
  overall_rating :: "int option"
  potential :: "int option"
  preferred_foot :: "string option"
  finishing :: "int option"
  short_passing :: "int option"
  dribbling :: "int option"
  sprint_speed :: "int option"
  stamina :: "int option"
  strength :: "int option"

text \<open>
  The exceptions that reach the routes of \<^verbatim>\<open>app.py\<close>: the driver raises
  \<^verbatim>\<open>OperationFailure\<close> when the server rejects a pipeline, and \<^verbatim>\<open>int\<close> raises
  \<^verbatim>\<open>ValueError\<close> on a request argument that is not an integer.
\<close>

datatype error = OperationFailure | ValueError

text \<open>
  The store is the three collections and two behaviours of the server that the source
  relies on and does not define:
  \<^item> \<open>field_path\<close>: the value in a document of a string operand that starts with
    \<^verbatim>\<open>$\<close>, \<open>None\<close> when the path leads to nothing (every such string has a value
    or none here: a string that the server refuses as a path is outside the model);
  \<^item> \<open>nonpositive_limit\<close>: what the server does with a \<^verbatim>\<open>$limit\<close> that is not
    positive, reject the pipeline or let that many documents pass.
\<close>

record database =
  matches :: "match_doc list"
  players :: "player_doc list"
  player_attributes :: "attr_doc list"
  field_path :: "string \<Rightarrow> (string \<times> bson) list \<Rightarrow> bson option"
  nonpositive_limit :: "int \<Rightarrow> error + nat"

section \<open>The result classifier of the loader\<close>

datatype result = home_win | away_win | draw | unknown

text \<open>\<^verbatim>\<open>_determine_result\<close> of \<^verbatim>\<open>data_loader.py\<close>.\<close>

fun determine_result :: "int option \<Rightarrow> int option \<Rightarrow> result" where
  "determine_result None away_goals = unknown"
| "determine_result (Some h) None = unknown"
| "determine_result (Some h) (Some a) =
     (if h > a then home_win else if h < a then away_win else draw)"

fun result_name :: "result \<Rightarrow> string" where
  "result_name home_win = ''home_win''"
| "result_name away_win = ''away_win''"
| "result_name draw = ''draw''"
| "result_name unknown = ''unknown''"

text \<open>The match document as the dictionary of \<^verbatim>\<open>load_matches\<close>, with its \<^verbatim>\<open>_id\<close>.\<close>

definition int_value :: "int option \<Rightarrow> bson" where
  "int_value v = (case v of None \<Rightarrow> BNull | Some i \<Rightarrow> BInt i)"

definition str_value :: "string option \<Rightarrow> bson" where
  "str_value v = (case v of None \<Rightarrow> BNull | Some s \<Rightarrow> BStr s)"

definition date_value :: "int option \<Rightarrow> bson" where
  "date_value v = (case v of None \<Rightarrow> BNull | Some d \<Rightarrow> BDate d)"

definition match_fields :: "match_doc \<Rightarrow> (string \<times> bson) list" where
  "match_fields m =
     [(''_id'', BObjectId (doc_id m)),
      (''match_api_id'', int_value (match_api_id m)),
      (''country_id'', int_value (country_id m)),
      (''country_name'', str_value (country_name m)),
      (''league_id'', int_value (league_id m)),
      (''league_name'', BStr (league_name m)),
      (''season'', BStr (season m)),
      (''stage'', int_value (stage m)),
      (''date'', date_value (match_date m)),
      (''home_team_api_id'', int_value (home_team_api_id m)),
      (''home_team_name'', BStr (home_team_name m)),
      (''away_team_api_id'', int_value (away_team_api_id m)),
      (''away_team_name'', BStr (away_team_name m)),
      (''home_team_goal'', int_value (home_team_goal m)),
      (''away_team_goal'', int_value (away_team_goal m)),
      (''result'', BStr (result_name (determine_result (home_team_goal m) (away_team_goal m))))]"

section \<open>Operators of the aggregation pipeline\<close>

text \<open>
  The comparison operators of an aggregation expression compare by the BSON order, in
  which null sorts below every number and equals itself. \<^verbatim>\<open>$sum\<close> skips a value that
  is not a number.
\<close>

fun bson_lt :: "int option \<Rightarrow> int option \<Rightarrow> bool" where
  "bson_lt None None = False"
| "bson_lt None (Some y) = True"
| "bson_lt (Some x) None = False"
| "bson_lt (Some x) (Some y) = (x < y)"

definition bson_gt :: "int option \<Rightarrow> int option \<Rightarrow> bool" where
  "bson_gt a b = bson_lt b a"

definition bson_eq :: "int option \<Rightarrow> int option \<Rightarrow> bool" where
  "bson_eq a b = (a = b)"

definition numeric :: "int option \<Rightarrow> int" where
  "numeric v = (case v of None \<Rightarrow> 0 | Some x \<Rightarrow> x)"

definition bson_sum :: "int option list \<Rightarrow> int" where
  "bson_sum vs = sum_list (map numeric vs)"

definition sum_cond :: "('a \<Rightarrow> bool) \<Rightarrow> 'a list \<Rightarrow> int" where
  "sum_cond c docs = sum_list (map (\<lambda>d. if c d then 1 else 0) docs)"

text \<open>
  A Python string that the source puts into an aggregation expression is an operand of
  that expression: the server reads a string that starts with \<^verbatim>\<open>$\<close> as a path into
  the document at hand, and every other string as itself. (In the filter of \<^verbatim>\<open>$match\<close>
  and of \<^verbatim>\<open>distinct\<close> a string is always itself.)
\<close>

fun is_path :: "string \<Rightarrow> bool" where
  "is_path [] = False"
| "is_path (c # cs) = (c = CHR ''$'')"

definition operand_value :: "database \<Rightarrow> string \<Rightarrow> (string \<times> bson) list \<Rightarrow> bson option" where
  "operand_value db s doc = (if is_path s then field_path db s doc else Some (BStr s))"

text \<open>\<^verbatim>\<open>$toString\<close> of an integer is its decimal numeral, of null it is null;
  \<^verbatim>\<open>$concat\<close> is null as soon as one argument is.\<close>

fun nat_to_string :: "nat \<Rightarrow> string" where
  "nat_to_string n =
     (if n < 10 then [''0123456789'' ! n]
      else nat_to_string (n div 10) @ [''0123456789'' ! (n mod 10)])"

declare nat_to_string.simps [simp del]

definition to_string :: "int \<Rightarrow> string" where
  "to_string i = (if i < 0 then CHR ''-'' # nat_to_string (nat (- i)) else nat_to_string (nat i))"

definition bson_to_string :: "int option \<Rightarrow> string option" where
  "bson_to_string v = map_option to_string v"

fun bson_concat :: "string option list \<Rightarrow> string option" where
  "bson_concat [] = Some []"
| "bson_concat (None # vs) = None"
| "bson_concat (Some s # vs) = (case bson_concat vs of None \<Rightarrow> None | Some t \<Rightarrow> Some (s @ t))"

text \<open>
  \<^verbatim>\<open>distinct\<close> and the keys of \<^verbatim>\<open>$group\<close>: the values in the order of their first
  occurrence. The store promises no order here; the model fixes this one.
\<close>

definition distinct_values :: "'a list \<Rightarrow> 'a list" where
  "distinct_values xs = rev (remdups (rev xs))"

text \<open>
  Sorting by a comparison \<open>le\<close>: an element goes before the first one it is \<open>le\<close> to,
  and the list is filled from its end, so elements with equal keys keep their order
  (Python's \<^verbatim>\<open>list.sort\<close> is stable, also with \<^verbatim>\<open>reverse=True\<close>). The \<^verbatim>\<open>$sort\<close>
  stage of the store promises no order among documents with equal keys; the model
  keeps theirs.
\<close>

fun insort_by :: "('a \<Rightarrow> 'a \<Rightarrow> bool) \<Rightarrow> 'a \<Rightarrow> 'a list \<Rightarrow> 'a list" where
  "insort_by le x [] = [x]"
| "insort_by le x (y # ys) = (if le x y then x # y # ys else y # insort_by le x ys)"

definition sort_by :: "('a \<Rightarrow> 'a \<Rightarrow> bool) \<Rightarrow> 'a list \<Rightarrow> 'a list" where
  "sort_by le xs = foldr (insort_by le) xs []"

text \<open>
  \<^verbatim>\<open>$limit\<close> with a positive limit lets the first so many documents pass. With any
  other limit the outcome is the server's: it rejects the pipeline, and the driver
  raises out of \<^verbatim>\<open>aggregate\<close>, or it lets some number of documents pass.
\<close>

definition limit_stage :: "database \<Rightarrow> int \<Rightarrow> 'a list \<Rightarrow> error + 'a list" where
  "limit_stage db limit docs =
     (if 0 < limit then Inr (take (nat limit) docs)
      else case nonpositive_limit db limit of
             Inl e \<Rightarrow> Inl e
           | Inr k \<Rightarrow> Inr (take k docs))"

section \<open>Query 2: the record of a team in a season\<close>

text \<open>
  The fields \<^verbatim>\<open>team\<close> and \<^verbatim>\<open>season\<close> of the result are operands of \<^verbatim>\<open>$project\<close>: a
  value, or nothing when the operand is a path that leads to nothing.
\<close>

record team_season_record =
  team :: "bson option"
  tsr_season :: "bson option"
  matches_played :: int
  wins :: int
  draws :: int
  losses :: int
  goals_scored :: int
  goals_conceded :: int
  goal_difference :: int
  points :: int
  position :: "int option"

text \<open>
  \<^verbatim>\<open>{'$eq': ['$home_team_name', team_name]}\<close>, and the same for the away side: the name
  stored in the match against the operand \<^verbatim>\<open>team_name\<close>.
\<close>

definition eq_operand :: "database \<Rightarrow> string \<Rightarrow> string \<Rightarrow> match_doc \<Rightarrow> bool" where
  "eq_operand db stored team_name m =
     (operand_value db team_name (match_fields m) = Some (BStr stored))"

text \<open>The conditions of the three \<^verbatim>\<open>$cond\<close> tallies, as the pipeline writes them.\<close>

definition win_cond :: "database \<Rightarrow> string \<Rightarrow> match_doc \<Rightarrow> bool" where
  "win_cond db team_name m =
     ((eq_operand db (home_team_name m) team_name m \<and>
         bson_gt (home_team_goal m) (away_team_goal m)) \<or>
      (eq_operand db (away_team_name m) team_name m \<and>
         bson_gt (away_team_goal m) (home_team_goal m)))"

definition loss_cond :: "database \<Rightarrow> string \<Rightarrow> match_doc \<Rightarrow> bool" where
  "loss_cond db team_name m =
     ((eq_operand db (home_team_name m) team_name m \<and>
         bson_lt (home_team_goal m) (away_team_goal m)) \<or>
      (eq_operand db (away_team_name m) team_name m \<and>
         bson_lt (away_team_goal m) (home_team_goal m)))"

definition draw_cond :: "match_doc \<Rightarrow> bool" where
  "draw_cond m = bson_eq (home_team_goal m) (away_team_goal m)"

text \<open>The filter of \<^verbatim>\<open>$match\<close>: the season and the team on either side, as strings.\<close>

definition season_matches :: "database \<Rightarrow> string \<Rightarrow> string \<Rightarrow> match_doc list" where
  "season_matches db team_name season' =
     filter (\<lambda>m. season m = season' \<and>
                 (home_team_name m = team_name \<or> away_team_name m = team_name)) (matches db)"

text \<open>The document that \<^verbatim>\<open>$group\<close> hands to \<^verbatim>\<open>$project\<close>.\<close>

definition group_fields :: "int \<Rightarrow> int \<Rightarrow> int \<Rightarrow> int \<Rightarrow> int \<Rightarrow> int \<Rightarrow> (string \<times> bson) list" where
  "group_fields n w l d gs gc =
     [(''_id'', BNull), (''total_matches'', BInt n), (''wins'', BInt w), (''losses'', BInt l),
      (''draws'', BInt d), (''goals_scored'', BInt gs), (''goals_conceded'', BInt gc)]"

text \<open>
  \<^verbatim>\<open>$group\<close> with the constant key gives one document when a match passed the filter
  and none otherwise; the function returns \<^verbatim>\<open>None\<close> then.
\<close>

definition query_2_team_season_record ::
  "database \<Rightarrow> string \<Rightarrow> string \<Rightarrow> team_season_record option" where
  "query_2_team_season_record db team_name season' =
     (let docs = season_matches db team_name season' in
      if docs = [] then None
      else
        let total_matches = int (length docs);
            w = sum_cond (win_cond db team_name) docs;
            l = sum_cond (loss_cond db team_name) docs;
            d = sum_cond draw_cond docs;
            gs = bson_sum (map (\<lambda>m. if eq_operand db (home_team_name m) team_name m
                                     then home_team_goal m else away_team_goal m) docs);
            gc = bson_sum (map (\<lambda>m. if eq_operand db (home_team_name m) team_name m
                                     then away_team_goal m else home_team_goal m) docs);
            grouped = group_fields total_matches w l d gs gc
        in Some \<lparr>team = operand_value db team_name grouped,
                 tsr_season = operand_value db season' grouped,
                 matches_played = total_matches,
                 wins = w, draws = d, losses = l, goals_scored = gs, goals_conceded = gc,
                 goal_difference = gs - gc, points = w * 3 + d, position = None\<rparr>)"

section \<open>Query 8: league standings\<close>

text \<open>Python compares the key tuples \<^verbatim>\<open>(points, goal_difference)\<close> lexicographically.\<close>

definition key_ge :: "int \<times> int \<Rightarrow> int \<times> int \<Rightarrow> bool" where
  "key_ge a b = (fst a > fst b \<or> (fst a = fst b \<and> snd a \<ge> snd b))"

definition standings_key :: "team_season_record \<Rightarrow> int \<times> int" where
  "standings_key x = (points x, goal_difference x)"

text \<open>
  \<^verbatim>\<open>query_8_league_standings\<close>: the teams are the distinct \<^verbatim>\<open>home_team_name\<close> values of
  the matches of the league and season (\<open>league_teams\<close>); each team's record comes from
  query 2, called with the team and the season (\<open>team_records\<close>); the records are
  sorted by the key, descending, and numbered from 1 (\<^verbatim>\<open>enumerate(standings, 1)\<close>).
\<close>

definition league_teams :: "database \<Rightarrow> string \<Rightarrow> string \<Rightarrow> string list" where
  "league_teams db league_name' season' =
     distinct_values (map home_team_name
       (filter (\<lambda>m. league_name m = league_name' \<and> season m = season') (matches db)))"

definition team_records :: "database \<Rightarrow> string list \<Rightarrow> string \<Rightarrow> team_season_record list" where
  "team_records db teams season' =
     concat (map (\<lambda>t. case query_2_team_season_record db t season' of
                         None \<Rightarrow> [] | Some r \<Rightarrow> [r]) teams)"

fun enumerate_from :: "int \<Rightarrow> team_season_record list \<Rightarrow> team_season_record list" where
  "enumerate_from i [] = []"
| "enumerate_from i (r # rs) = r\<lparr>position := Some i\<rparr> # enumerate_from (i + 1) rs"

definition query_8_league_standings ::
  "database \<Rightarrow> string \<Rightarrow> string \<Rightarrow> team_season_record list" where
  "query_8_league_standings db league_name' season' =
     (let teams = league_teams db league_name' season';
          standings = team_records db teams season';
          sorted = sort_by (\<lambda>x y. key_ge (standings_key x) (standings_key y)) standings
      in enumerate_from 1 sorted)"

section \<open>Query 9: head to head\<close>

record head_to_head =
  team1 :: "bson option"
  team2 :: "bson option"
  total_matches :: int
  team1_wins :: int
  team2_wins :: int
  h2h_draws :: int

text \<open>
  The filter takes the matches with the two teams on opposite sides, in either
  arrangement; the win tallies use the condition of query 2, once for each team.
\<close>

definition h2h_matches :: "database \<Rightarrow> string \<Rightarrow> string \<Rightarrow> match_doc list" where
  "h2h_matches db t1 t2 =
     filter (\<lambda>m. (home_team_name m = t1 \<and> away_team_name m = t2) \<or>
                 (home_team_name m = t2 \<and> away_team_name m = t1)) (matches db)"

definition h2h_group_fields :: "int \<Rightarrow> int \<Rightarrow> int \<Rightarrow> int \<Rightarrow> (string \<times> bson) list" where
  "h2h_group_fields n w1 w2 d =
     [(''_id'', BNull), (''total_matches'', BInt n), (''team1_wins'', BInt w1),
      (''team2_wins'', BInt w2), (''draws'', BInt d)]"

definition query_9_head_to_head :: "database \<Rightarrow> string \<Rightarrow> string \<Rightarrow> head_to_head option" where
  "query_9_head_to_head db t1 t2 =
     (let docs = h2h_matches db t1 t2 in
      if docs = [] then None
      else
        let n = int (length docs);
            w1 = sum_cond (win_cond db t1) docs;
            w2 = sum_cond (win_cond db t2) docs;
            d = sum_cond draw_cond docs;
            grouped = h2h_group_fields n w1 w2 d
        in Some \<lparr>team1 = operand_value db t1 grouped, team2 = operand_value db t2 grouped,
                 total_matches = n, team1_wins = w1, team2_wins = w2, h2h_draws = d\<rparr>)"

section \<open>Query 6: the most common scorelines\<close>

record scoreline_row =
  scoreline :: "string option"
  home_goals :: "int option"
  away_goals :: "int option"
  occurrences :: int

text \<open>
  \<^verbatim>\<open>$group\<close> by the pair of goal fields with a count, then the projection with the
  scoreline string, the sort by count, descending, and the limit.
\<close>

definition goal_pair :: "match_doc \<Rightarrow> int option \<times> int option" where
  "goal_pair m = (home_team_goal m, away_team_goal m)"

definition scoreline_of :: "int option \<times> int option \<Rightarrow> int \<Rightarrow> scoreline_row" where
  "scoreline_of k c =
     \<lparr>scoreline = bson_concat [bson_to_string (fst k), Some '' - '', bson_to_string (snd k)],
      home_goals = fst k, away_goals = snd k, occurrences = c\<rparr>"

definition query_6_common_scorelines :: "database \<Rightarrow> int \<Rightarrow> error + scoreline_row list" where
  "query_6_common_scorelines db limit =
     (let ids = distinct_values (map goal_pair (matches db));
          grouped = map (\<lambda>k. (k, int (length (filter (\<lambda>m. goal_pair m = k) (matches db))))) ids;
          projected = map (\<lambda>(k, c). scoreline_of k c) grouped;
          sorted = sort_by (\<lambda>x y. occurrences x \<ge> occurrences y) projected
      in limit_stage db limit sorted)"

section \<open>Query 5: the attributes of a player over time\<close>

record rating_point =
  rp_player_name :: string
  rp_date :: "int option"
  rp_overall_rating :: "int option"
  rp_potential :: "int option"
  rp_finishing :: "int option"
  rp_short_passing :: "int option"
  rp_dribbling :: "int option"
  rp_sprint_speed :: "int option"
  rp_stamina :: "int option"
  rp_strength :: "int option"

text \<open>
  \<^verbatim>\<open>$lookup\<close> joins a player to the snapshots with its identifier; \<^verbatim>\<open>$unwind\<close> gives
  one document for each snapshot, and none for a player without snapshots.
\<close>

definition lookup_attributes :: "database \<Rightarrow> player_doc \<Rightarrow> attr_doc list" where
  "lookup_attributes db p =
     filter (\<lambda>a. attr_player_api_id a = player_api_id p) (player_attributes db)"

definition unwind_attributes :: "database \<Rightarrow> player_doc list \<Rightarrow> (player_doc \<times> attr_doc) list" where
  "unwind_attributes db ps = concat (map (\<lambda>p. map (\<lambda>a. (p, a)) (lookup_attributes db p)) ps)"

definition date_le :: "int option \<Rightarrow> int option \<Rightarrow> bool" where
  "date_le a b = (\<not> bson_lt b a)"

definition query_5_player_attributes_over_time :: "database \<Rightarrow> string \<Rightarrow> rating_point list" where
  "query_5_player_attributes_over_time db player_name' =
     (let matched = filter (\<lambda>p. player_name p = player_name') (players db);
          unwound = unwind_attributes db matched;
          projected = map (\<lambda>(p, a).
              \<lparr>rp_player_name = player_name p, rp_date = date a,
               rp_overall_rating = overall_rating a, rp_potential = potential a,
               rp_finishing = finishing a, rp_short_passing = short_passing a,
               rp_dribbling = dribbling a, rp_sprint_speed = sprint_speed a,
               rp_stamina = stamina a, rp_strength = strength a\<rparr>) unwound
      in sort_by (\<lambda>x y. date_le (rp_date x) (rp_date y)) projected)"

section \<open>Query 3: the top players by rating\<close>

record top_player =
  tp_player_name :: string
  avg_rating :: "rat option"
  max_rating :: "int option"
  tp_height :: "rat option"
  tp_weight :: "int option"
  tp_preferred_foot :: "string option"

text \<open>
  \<^verbatim>\<open>$avg\<close> and \<^verbatim>\<open>$max\<close> skip null and are null when nothing is left. The store
  computes the average in double precision; the model keeps the exact quotient.
  \<^verbatim>\<open>$round\<close> rounds a half to the even neighbour.
\<close>

definition numbers :: "int option list \<Rightarrow> int list" where
  "numbers vs = concat (map (\<lambda>v. case v of None \<Rightarrow> [] | Some x \<Rightarrow> [x]) vs)"

definition bson_avg :: "int option list \<Rightarrow> rat option" where
  "bson_avg vs =
     (let xs = numbers vs in
      if xs = [] then None else Some (of_int (sum_list xs) / of_int (int (length xs))))"

definition bson_max :: "int option list \<Rightarrow> int option" where
  "bson_max vs = (case numbers vs of [] \<Rightarrow> None | x # xs \<Rightarrow> Some (fold max xs x))"

definition round_half_even :: "rat \<Rightarrow> int" where
  "round_half_even x =
     (let f = \<lfloor>x\<rfloor>; d = x - of_int f in
      if d < 1 / 2 then f else if 1 / 2 < d then f + 1 else if even f then f else f + 1)"

definition bson_round1 :: "rat option \<Rightarrow> rat option" where
  "bson_round1 v = map_option (\<lambda>x. of_int (round_half_even (x * 10)) / 10) v"

definition avg_ge :: "rat option \<Rightarrow> rat option \<Rightarrow> bool" where
  "avg_ge a b =
     (case b of None \<Rightarrow> True | Some y \<Rightarrow> (case a of None \<Rightarrow> False | Some x \<Rightarrow> y \<le> x))"

text \<open>
  The function builds \<^verbatim>\<open>match_filter\<close> from the league name and then runs a pipeline
  on \<^verbatim>\<open>players\<close> in which the filter does not occur.
\<close>

definition query_3_top_players_by_rating ::
  "database \<Rightarrow> string option \<Rightarrow> int \<Rightarrow> error + top_player list" where
  "query_3_top_players_by_rating db league_name' limit =
     (let match_filter = (case league_name' of None \<Rightarrow> []
                          | Some l \<Rightarrow> if l = [] then [] else [(''league_name'', l)]);
          unwound = unwind_attributes db (players db);
          ids = distinct_values (map (\<lambda>(p, a). player_api_id p) unwound);
          grouped = concat (map (\<lambda>k.
              case filter (\<lambda>(p, a). player_api_id p = k) unwound of
                [] \<Rightarrow> []
              | (p, a) # rest \<Rightarrow>
                  [\<lparr>tp_player_name = player_name p,
                    avg_rating = bson_avg (map (\<lambda>(q, b). overall_rating b) ((p, a) # rest)),
                    max_rating = bson_max (map (\<lambda>(q, b). overall_rating b) ((p, a) # rest)),
                    tp_height = height p, tp_weight = weight p,
                    tp_preferred_foot = preferred_foot a\<rparr>]) ids);
          sorted = sort_by (\<lambda>x y. avg_ge (avg_rating x) (avg_rating y)) grouped
      in case limit_stage db limit sorted of
           Inl e \<Rightarrow> Inl e
         | Inr rows \<Rightarrow> Inr (map (\<lambda>r. r\<lparr>avg_rating := bson_round1 (avg_rating r)\<rparr>) rows))"


section \<open>The route of the top players\<close>

text \<open>
  \<^verbatim>\<open>get_top_players\<close> of \<^verbatim>\<open>app.py\<close>. The argument \<open>limit_arg\<close> is the outcome of
  \<^verbatim>\<open>int(request.args.get('limit', 10))\<close>: the limit, or the \<^verbatim>\<open>ValueError\<close> it raises.
  Every exception is answered with status 500; the routes answer a missing argument
  with 400 and a missing record with 404. The body is the list of players of the
  answer, or the error whose text the answer carries.
\<close>

record top_players_response =
  status :: nat
  body :: "error + top_player list"

definition get_top_players ::
  "database \<Rightarrow> string option \<Rightarrow> error + int \<Rightarrow> top_players_response" where
  "get_top_players db league limit_arg =
     (case limit_arg of
        Inl e \<Rightarrow> \<lparr>status = 500, body = Inl e\<rparr>
      | Inr limit \<Rightarrow>
          (case query_3_top_players_by_rating db league limit of
             Inl e \<Rightarrow> \<lparr>status = 500, body = Inl e\<rparr>
           | Inr rows \<Rightarrow> \<lparr>status = 200, body = Inr rows\<rparr>))"

section \<open>Example fact sets\<close>

text \<open>
  The store of the examples reads a path as the name of a top-level field of the
  document, and rejects a limit that is not positive, as MongoDB does. The examples use
  no other path.
\<close>

definition top_level_field :: "string \<Rightarrow> (string \<times> bson) list \<Rightarrow> bson option" where
  "top_level_field s doc = map_of doc (tl s)"

definition rejects :: "int \<Rightarrow> error + nat" where
  "rejects limit = Inl OperationFailure"

definition mk_match ::
  "string \<Rightarrow> string \<Rightarrow> string \<Rightarrow> string \<Rightarrow> int option \<Rightarrow> int option \<Rightarrow> match_doc" where
  "mk_match l s h a hg ag =
     \<lparr>doc_id = 0, match_api_id = None, country_id = None, country_name = None,
      league_id = None, league_name = l, season = s, stage = None, match_date = None,
      home_team_api_id = None, home_team_name = h, away_team_api_id = None,
      away_team_name = a, home_team_goal = hg, away_team_goal = ag\<rparr>"

definition mk_db :: "match_doc list \<Rightarrow> database" where
  "mk_db ms = \<lparr>matches = ms, players = [], player_attributes = [],
               field_path = top_level_field, nonpositive_limit = rejects\<rparr>"

text \<open>One match of league L in season 2020: A beats B at home. B is never a home side.\<close>

definition db_away_only :: database where
  "db_away_only = mk_db [mk_match ''L'' ''2020'' ''A'' ''B'' (Some 1) (Some 0)]"

text \<open>A and B both draw at home, A without goals and B with one goal.\<close>

definition db_tied :: database where
  "db_tied = mk_db [mk_match ''L'' ''2020'' ''A'' ''C'' (Some 0) (Some 0),
                    mk_match ''L'' ''2020'' ''B'' ''D'' (Some 1) (Some 1)]"

text \<open>The scorelines (2,1), (2,1), (1,1).\<close>

definition db_scorelines :: database where
  "db_scorelines = mk_db [mk_match ''L'' ''2020'' ''A'' ''B'' (Some 2) (Some 1),
                          mk_match ''L'' ''2020'' ''C'' ''D'' (Some 2) (Some 1),
                          mk_match ''L'' ''2020'' ''B'' ''A'' (Some 1) (Some 1)]"

text \<open>A beats B 2-1 at home and draws 0-0 away, both in season 2020.\<close>

definition db_scenario :: database where
  "db_scenario = mk_db [mk_match ''L'' ''2020'' ''A'' ''B'' (Some 2) (Some 1),
                        mk_match ''L'' ''2020'' ''B'' ''A'' (Some 0) (Some 0)]"

text \<open>One match of A against B whose goal counts are both absent.\<close>

definition db_unknown :: database where
  "db_unknown = mk_db [mk_match ''L'' ''2020'' ''A'' ''B'' None None]"

text \<open>One match with the same team on both sides.\<close>

definition db_self_match :: database where
  "db_self_match = mk_db [mk_match ''L'' ''2020'' ''A'' ''A'' (Some 1) (Some 0)]"

text \<open>A team whose name is \<^verbatim>\<open>$season\<close> beats B 1-0 at home.\<close>

definition db_path_name_home :: database where
  "db_path_name_home = mk_db [mk_match ''L'' ''2020'' ''$season'' ''B'' (Some 1) (Some 0)]"

text \<open>A loses 0-1 at home against a team whose name is \<^verbatim>\<open>$season\<close>.\<close>

definition db_path_name_away :: database where
  "db_path_name_away = mk_db [mk_match ''L'' ''2020'' ''A'' ''$season'' (Some 0) (Some 1)]"

definition mk_attr :: "int \<Rightarrow> int option \<Rightarrow> int option \<Rightarrow> attr_doc" where
  "mk_attr i d r =
     \<lparr>attr_player_api_id = i, date = d, overall_rating = r, potential = None,
      preferred_foot = Some ''right'', finishing = None, short_passing = None,
      dribbling = None, sprint_speed = None, stamina = None, strength = None\<rparr>"

definition mk_player :: "int \<Rightarrow> string \<Rightarrow> player_doc" where
  "mk_player i n = \<lparr>player_api_id = i, player_name = n, height = None, weight = None\<rparr>"

text \<open>One player with one snapshot, and no match at all.\<close>

definition db_no_matches :: database where
  "db_no_matches = \<lparr>matches = [], players = [mk_player 7 ''P''],
                     player_attributes = [mk_attr 7 (Some 1) (Some 80)],
                     field_path = top_level_field, nonpositive_limit = rejects\<rparr>"

text \<open>One player without any snapshot.\<close>

definition db_no_snapshots :: database where
  "db_no_snapshots = \<lparr>matches = [], players = [mk_player 7 ''P''], player_attributes = [],
                       field_path = top_level_field, nonpositive_limit = rejects\<rparr>"

text \<open>A beats B 3-0 at home and draws 1-1 away.\<close>

definition db_derby :: database where
  "db_derby = mk_db [mk_match ''L'' ''2020'' ''A'' ''B'' (Some 3) (Some 0),
                     mk_match ''L'' ''2021'' ''B'' ''A'' (Some 1) (Some 1)]"

section \<open>Notions of the statements\<close>

text \<open>The operand \<open>t\<close> is compared as the name \<open>t\<close> itself on the match \<open>m\<close>.\<close>

definition compared_as_name :: "database \<Rightarrow> string \<Rightarrow> match_doc \<Rightarrow> bool" where
  "compared_as_name db t m = (operand_value db t (match_fields m) = Some (BStr t))"

text \<open>The match has the team on both sides and is not drawn.\<close>

definition counted_twice :: "string \<Rightarrow> match_doc \<Rightarrow> bool" where
  "counted_twice t m = (home_team_name m = t \<and> away_team_name m = t \<and> \<not> draw_cond m)"

text \<open>
  On every match of the team in the season the name is compared as itself, and none of
  them is counted twice.
\<close>

definition tallies_partition :: "database \<Rightarrow> string \<Rightarrow> string \<Rightarrow> bool" where
  "tallies_partition db t s =
     list_all (\<lambda>m. compared_as_name db t m \<and> \<not> counted_twice t m) (season_matches db t s)"

text \<open>The count of matches and the three tallies of a record.\<close>

definition played_tallies :: "team_season_record \<Rightarrow> int \<times> int \<times> int \<times> int" where
  "played_tallies r = (matches_played r, wins r, draws r, losses r)"


text \<open>The four tallies of a head-to-head record, and the same with the wins exchanged.\<close>

definition h2h_tallies :: "head_to_head \<Rightarrow> int \<times> int \<times> int \<times> int" where
  "h2h_tallies r = (total_matches r, team1_wins r, team2_wins r, h2h_draws r)"

definition h2h_tallies_swapped :: "head_to_head \<Rightarrow> int \<times> int \<times> int \<times> int" where
  "h2h_tallies_swapped r = (total_matches r, team2_wins r, team1_wins r, h2h_draws r)"

text \<open>The lexicographic order of the triples \<open>(points, goal_difference, goals_scored)\<close>.\<close>

definition key3_ge :: "int \<times> int \<times> int \<Rightarrow> int \<times> int \<times> int \<Rightarrow> bool" where
  "key3_ge a b =
     (fst a > fst b \<or> (fst a = fst b \<and>
        (fst (snd a) > fst (snd b) \<or>
           (fst (snd a) = fst (snd b) \<and> snd (snd a) \<ge> snd (snd b)))))"

text \<open>A sequence of records that is non-increasing in that key.\<close>

definition key3 :: "team_season_record \<Rightarrow> int \<times> int \<times> int" where
  "key3 r = (points r, goal_difference r, goals_scored r)"

definition non_increasing_key3 :: "team_season_record list \<Rightarrow> bool" where
  "non_increasing_key3 rs = sorted_wrt (\<lambda>x y. key3_ge (key3 x) (key3 y)) rs"

text \<open>A record without its position, as query 2 returns it.\<close>

definition unplaced :: "team_season_record \<Rightarrow> team_season_record" where
  "unplaced r = r\<lparr>position := None\<rparr>"

text \<open>The ranking of query 6 as a function of the goal pairs of the stored matches.\<close>

definition scoreline_ranking :: "(int option \<times> int option) list \<Rightarrow> scoreline_row list" where
  "scoreline_ranking ps =
     sort_by (\<lambda>x y. occurrences x \<ge> occurrences y)
       (map (\<lambda>k. scoreline_of k (int (length (filter (\<lambda>p. p = k) ps)))) (distinct_values ps))"

text \<open>The two rows of the scoreline scenario.\<close>

definition row_2_1 :: scoreline_row where
  "row_2_1 = \<lparr>scoreline = Some ''2 - 1'', home_goals = Some 2, away_goals = Some 1,
              occurrences = 2\<rparr>"

definition row_1_1 :: scoreline_row where
  "row_1_1 = \<lparr>scoreline = Some ''1 - 1'', home_goals = Some 1, away_goals = Some 1,
              occurrences = 1\<rparr>"

section \<open>The BSON order and the tallies\<close>

lemmas db_defs = mk_db_def mk_match_def mk_attr_def mk_player_def top_level_field_def
  rejects_def

lemmas q2_defs = query_2_team_season_record_def season_matches_def sum_cond_def bson_sum_def
  win_cond_def loss_cond_def draw_cond_def bson_gt_def bson_eq_def numeric_def
  eq_operand_def operand_value_def group_fields_def

lemmas q9_defs = query_9_head_to_head_def h2h_matches_def sum_cond_def
  win_cond_def draw_cond_def bson_gt_def bson_eq_def eq_operand_def operand_value_def
  h2h_group_fields_def

lemmas field_defs = match_fields_def int_value_def str_value_def date_value_def

lemma bson_lt_cases: "bson_lt a b \<or> a = b \<or> bson_lt b a"
  by (cases a; cases b) auto

lemma bson_lt_irrefl: "\<not> bson_lt a a"
  by (cases a) auto

lemma bson_lt_asym: "bson_lt a b \<Longrightarrow> \<not> bson_lt b a"
  by (cases a; cases b) auto

text \<open>A string that does not start with \<^verbatim>\<open>$\<close> is compared as itself.\<close>

lemma plain_operand: "\<not> is_path t \<Longrightarrow> operand_value db t doc = Some (BStr t)"
  by (simp add: operand_value_def)

lemma plain_compared: "\<not> is_path t \<Longrightarrow> compared_as_name db t m"
  by (simp add: compared_as_name_def plain_operand)

lemma eq_operand_name: "compared_as_name db t m \<Longrightarrow> eq_operand db stored t m = (stored = t)"
  by (auto simp: compared_as_name_def eq_operand_def)

text \<open>
  A match of the team that is compared by name and not counted twice adds one to
  exactly one tally.
\<close>

lemma tally_one:
  assumes "compared_as_name db t m" and "home_team_name m = t \<or> away_team_name m = t"
    and "\<not> counted_twice t m"
  shows "(if win_cond db t m then 1 else 0) + (if draw_cond m then 1 else 0)
           + (if loss_cond db t m then 1 else (0::int)) = 1"
  using assms(2,3) bson_lt_cases [of "home_team_goal m" "away_team_goal m"]
    bson_lt_asym [of "home_team_goal m" "away_team_goal m"]
    bson_lt_irrefl [of "home_team_goal m"]
  by (auto simp: win_cond_def loss_cond_def draw_cond_def bson_gt_def bson_eq_def
      counted_twice_def eq_operand_name [OF assms(1)])

lemma tallies_sum:
  assumes "\<forall>m\<in>set docs. compared_as_name db t m \<and>
             (home_team_name m = t \<or> away_team_name m = t) \<and> \<not> counted_twice t m"
  shows "sum_cond (win_cond db t) docs + sum_cond draw_cond docs + sum_cond (loss_cond db t) docs
           = int (length docs)"
  using assms
proof (induction docs)
  case Nil
  then show ?case by (simp add: sum_cond_def)
next
  case (Cons m docs)
  have one: "(if win_cond db t m then 1 else 0) + (if draw_cond m then 1 else 0)
           + (if loss_cond db t m then 1 else (0::int)) = 1"
    using Cons.prems by (intro tally_one) auto
  have rest: "sum_cond (win_cond db t) docs + sum_cond draw_cond docs
                + sum_cond (loss_cond db t) docs = int (length docs)"
    using Cons by simp
  show ?case using one rest by (simp add: sum_cond_def)
qed

lemma h2h_tallies_sum:
  assumes "t1 \<noteq> t2"
    and "\<forall>m\<in>set docs. compared_as_name db t1 m \<and> compared_as_name db t2 m \<and>
            ((home_team_name m = t1 \<and> away_team_name m = t2) \<or>
             (home_team_name m = t2 \<and> away_team_name m = t1))"
  shows "sum_cond (win_cond db t1) docs + sum_cond (win_cond db t2) docs + sum_cond draw_cond docs
           = int (length docs)"
  using assms(2)
proof (induction docs)
  case Nil
  then show ?case by (simp add: sum_cond_def)
next
  case (Cons m docs)
  have c: "compared_as_name db t1 m" "compared_as_name db t2 m"
    and sides: "(home_team_name m = t1 \<and> away_team_name m = t2) \<or>
                (home_team_name m = t2 \<and> away_team_name m = t1)"
    using Cons.prems by simp_all
  have one: "(if win_cond db t1 m then 1 else 0) + (if win_cond db t2 m then 1 else 0)
               + (if draw_cond m then 1 else (0::int)) = 1"
    using sides assms(1) bson_lt_cases [of "home_team_goal m" "away_team_goal m"]
      bson_lt_asym [of "home_team_goal m" "away_team_goal m"]
      bson_lt_irrefl [of "home_team_goal m"]
    by (auto simp: win_cond_def draw_cond_def bson_gt_def bson_eq_def
        eq_operand_name [OF c(1)] eq_operand_name [OF c(2)])
  have rest: "sum_cond (win_cond db t1) docs + sum_cond (win_cond db t2) docs
                + sum_cond draw_cond docs = int (length docs)"
    using Cons by simp
  show ?case using one rest by (simp add: sum_cond_def)
qed

lemma h2h_matches_swap: "h2h_matches db t2 t1 = h2h_matches db t1 t2"
  unfolding h2h_matches_def by (rule filter_cong) auto

section \<open>Head to head\<close>

text \<open>
  C9, amended. For two different team names that the tallies compare as themselves
  (as they do every name that does not start with \<^verbatim>\<open>$\<close>), the tallies of a
  head-to-head record add up: \<open>team1_wins + team2_wins + draws = total_matches\<close>. For
  every pair of names, the call with the names swapped returns a record exactly when
  the first call does, with the two win tallies exchanged and the same draws and total.
\<close>

theorem head_to_head_sum_and_swap:
  "((t1 \<noteq> t2 \<and>
     list_all (\<lambda>m. compared_as_name db t1 m \<and> compared_as_name db t2 m)
       (h2h_matches db t1 t2)) \<longrightarrow>
      (\<forall>r. query_9_head_to_head db t1 t2 = Some r \<longrightarrow>
           team1_wins r + team2_wins r + h2h_draws r = total_matches r)) \<and>
   map_option h2h_tallies (query_9_head_to_head db t2 t1) =
     map_option h2h_tallies_swapped (query_9_head_to_head db t1 t2)"
proof (intro conjI impI allI)
  fix r
  assume h: "t1 \<noteq> t2 \<and>
     list_all (\<lambda>m. compared_as_name db t1 m \<and> compared_as_name db t2 m) (h2h_matches db t1 t2)"
    and some: "query_9_head_to_head db t1 t2 = Some r"
  have "\<forall>m\<in>set (h2h_matches db t1 t2). compared_as_name db t1 m \<and> compared_as_name db t2 m \<and>
          ((home_team_name m = t1 \<and> away_team_name m = t2) \<or>
           (home_team_name m = t2 \<and> away_team_name m = t1))"
    using h by (auto simp: h2h_matches_def list_all_iff)
  from h2h_tallies_sum [OF _ this] h some
  show "team1_wins r + team2_wins r + h2h_draws r = total_matches r"
    by (auto simp: query_9_head_to_head_def Let_def split: if_splits)
next
  show "map_option h2h_tallies (query_9_head_to_head db t2 t1) =
     map_option h2h_tallies_swapped (query_9_head_to_head db t1 t2)"
    by (simp add: query_9_head_to_head_def Let_def h2h_matches_swap h2h_tallies_def
        h2h_tallies_swapped_def)
qed

text \<open>The theorem at the two meetings of A and B: one win of A, one draw.\<close>

theorem head_to_head_sum_and_swap_witness:
  "''A'' \<noteq> ''B'' \<and>
   query_9_head_to_head db_derby ''A'' ''B'' =
      Some \<lparr>team1 = Some (BStr ''A''), team2 = Some (BStr ''B''), total_matches = 2,
             team1_wins = 1, team2_wins = 0, h2h_draws = 1\<rparr> \<and>
   (1::int) + 0 + 1 = 2 \<and>
   map_option h2h_tallies (query_9_head_to_head db_derby ''B'' ''A'') = Some (2, 0, 1, 1)"
proof -
  have ne: "''A'' \<noteq> ''B''" by simp
  have cmp: "list_all (\<lambda>m. compared_as_name db_derby ''A'' m \<and> compared_as_name db_derby ''B'' m)
               (h2h_matches db_derby ''A'' ''B'')"
    by (simp add: list_all_iff plain_compared)
  have some: "query_9_head_to_head db_derby ''A'' ''B'' =
      Some \<lparr>team1 = Some (BStr ''A''), team2 = Some (BStr ''B''), total_matches = 2,
             team1_wins = 1, team2_wins = 0, h2h_draws = 1\<rparr>"
    by (simp add: db_derby_def db_defs q9_defs)
  from head_to_head_sum_and_swap [of "''A''" "''B''" db_derby] ne cmp some
  show ?thesis by (simp add: h2h_tallies_swapped_def)
qed

text \<open>
  Asked for A against A over a match of A against itself, the record counts the one
  match as a win of both sides: the tallies add up to 2, the total is 1. Asked for A
  against the team named \<^verbatim>\<open>$season\<close>, which beats A 1-0 away, the record has one
  match and no win and no draw: A did not win, and the second operand is read as the
  season of the match, which is the name of neither side.
\<close>

theorem head_to_head_sum_counterexample:
  "map_option h2h_tallies (query_9_head_to_head db_self_match ''A'' ''A'') = Some (1, 1, 1, 0) \<and>
   map_option h2h_tallies (query_9_head_to_head db_path_name_away ''A'' ''$season'') =
     Some (1, 0, 0, 0)"
  by (simp add: db_self_match_def db_path_name_away_def db_defs q9_defs h2h_tallies_def
      field_defs)

section \<open>The record of a team in a season\<close>




lemma query_2_fields:
  assumes "query_2_team_season_record db t s = Some r"
  shows "goal_difference r = goals_scored r - goals_conceded r"
    and "points r = 3 * wins r + draws r"
    and "matches_played r = int (length (season_matches db t s))"
    and "wins r = sum_cond (win_cond db t) (season_matches db t s)"
    and "draws r = sum_cond draw_cond (season_matches db t s)"
    and "losses r = sum_cond (loss_cond db t) (season_matches db t s)"
    and "position r = None"
  using assms by (auto simp: query_2_team_season_record_def Let_def split: if_splits)

lemma query_2_played:
  assumes "query_2_team_season_record db t s = Some r" "tallies_partition db t s"
  shows "matches_played r = wins r + draws r + losses r"
proof -
  have "\<forall>m\<in>set (season_matches db t s). compared_as_name db t m \<and>
          (home_team_name m = t \<or> away_team_name m = t) \<and> \<not> counted_twice t m"
    using assms(2) by (auto simp: season_matches_def tallies_partition_def list_all_iff)
  from tallies_sum [OF this] show ?thesis
    using query_2_fields [OF assms(1)] by simp
qed


text \<open>
  When both goal counts of a match are present and the team is compared by its name,
  the three conditions are the outcome of the loader's classifier seen from the side of
  the team.
\<close>

lemma known_goals_perspective:
  assumes "home_team_goal m = Some h" "away_team_goal m = Some a" "compared_as_name db t m"
  shows "win_cond db t m =
           ((home_team_name m = t \<and> determine_result (Some h) (Some a) = home_win) \<or>
            (away_team_name m = t \<and> determine_result (Some h) (Some a) = away_win))"
    and "loss_cond db t m =
           ((home_team_name m = t \<and> determine_result (Some h) (Some a) = away_win) \<or>
            (away_team_name m = t \<and> determine_result (Some h) (Some a) = home_win))"
    and "draw_cond m = (determine_result (Some h) (Some a) = draw)"
  using assms(1,2)
  by (auto simp: win_cond_def loss_cond_def draw_cond_def bson_gt_def bson_eq_def
      eq_operand_name [OF assms(3)])

text \<open>The record of A in season 2020 after a 2-1 home win and a 0-0 away draw against B.\<close>

lemma record_scenario:
  "query_2_team_season_record db_scenario ''A'' ''2020'' =
     Some \<lparr>team = Some (BStr ''A''), tsr_season = Some (BStr ''2020''), matches_played = 2,
            wins = 1, draws = 1, losses = 0, goals_scored = 2, goals_conceded = 1,
            goal_difference = 1, points = 4, position = None\<rparr>"
  by (simp add: db_scenario_def db_defs q2_defs)

text \<open>
  C7. The claim lets a match with an absent goal count add to no tally. The pipeline
  compares the stored goal fields: for the one match of A against B with both goal counts
  absent, which the classifier calls \<open>unknown\<close>, the record of A has one draw and one
  point.
\<close>

theorem unknown_match_tallied_as_draw:
  "determine_result None None = unknown \<and>
   query_2_team_season_record db_unknown ''A'' ''2020'' =
     Some \<lparr>team = Some (BStr ''A''), tsr_season = Some (BStr ''2020''), matches_played = 1,
            wins = 0, draws = 1, losses = 0, goals_scored = 0, goals_conceded = 0,
            goal_difference = 0, points = 1, position = None\<rparr>"
  by (simp add: db_unknown_def db_defs q2_defs)



section \<open>Sorting and numbering\<close>

lemma set_insort_by: "set (insort_by le x xs) = insert x (set xs)"
  by (induction xs) auto

lemma length_insort_by: "length (insort_by le x xs) = Suc (length xs)"
  by (induction xs) auto

lemma mset_insort_by: "mset (insort_by le x xs) = add_mset x (mset xs)"
  by (induction xs) auto

lemma set_sort_by: "set (sort_by le xs) = set xs"
  by (induction xs) (auto simp: sort_by_def set_insort_by)

lemma length_sort_by: "length (sort_by le xs) = length xs"
  by (induction xs) (auto simp: sort_by_def length_insort_by)

lemma mset_sort_by: "mset (sort_by le xs) = mset xs"
  by (induction xs) (auto simp: sort_by_def mset_insort_by)

lemma sort_by_Nil: "sort_by le [] = []"
  by (simp add: sort_by_def)

lemma sort_by_Cons: "sort_by le (x # xs) = insort_by le x (sort_by le xs)"
  by (simp add: sort_by_def)

lemma sorted_insort_by:
  assumes total: "\<And>a b. le a b \<or> le b a" and trans: "\<And>a b c. le a b \<Longrightarrow> le b c \<Longrightarrow> le a c"
    and "sorted_wrt le xs"
  shows "sorted_wrt le (insort_by le x xs)"
  using assms(3)
proof (induction xs)
  case Nil
  then show ?case by simp
next
  case (Cons y ys)
  show ?case
  proof (cases "le x y")
    case True
    then have "\<forall>z\<in>set ys. le x z" using Cons.prems trans by auto
    with True Cons.prems show ?thesis by simp
  next
    case False
    then have "le y x" using total by blast
    with False Cons show ?thesis by (auto simp: set_insort_by)
  qed
qed

lemma sorted_sort_by:
  assumes total: "\<And>a b. le a b \<or> le b a" and trans: "\<And>a b c. le a b \<Longrightarrow> le b c \<Longrightarrow> le a c"
  shows "sorted_wrt le (sort_by le xs)"
proof (induction xs)
  case Nil
  then show ?case by (simp add: sort_by_def)
next
  case (Cons x xs)
  with sorted_insort_by [of le, OF total trans] show ?case by (simp add: sort_by_Cons)
qed

text \<open>
  The sort is stable: the elements of one class, any two of which are \<open>le\<close>, stay in
  their order.
\<close>

lemma filter_insort_by:
  assumes "\<And>y. P x \<Longrightarrow> P y \<Longrightarrow> le x y"
  shows "filter P (insort_by le x xs) = (if P x then x # filter P xs else filter P xs)"
proof (induction xs)
  case Nil
  then show ?case by simp
next
  case (Cons y ys)
  show ?case
  proof (cases "le x y")
    case True
    then show ?thesis by simp
  next
    case False
    then have "\<not> (P x \<and> P y)" using assms by blast
    with False Cons show ?thesis by auto
  qed
qed

lemma filter_sort_by:
  assumes "\<And>x y. P x \<Longrightarrow> P y \<Longrightarrow> le x y"
  shows "filter P (sort_by le xs) = filter P xs"
proof (induction xs)
  case Nil
  then show ?case by (simp add: sort_by_Nil)
next
  case (Cons x xs)
  have "filter P (insort_by le x (sort_by le xs)) =
          (if P x then x # filter P (sort_by le xs) else filter P (sort_by le xs))"
    by (rule filter_insort_by) (use assms in blast)
  with Cons show ?case by (simp add: sort_by_Cons)
qed

lemma set_distinct_values: "set (distinct_values xs) = set xs"
  by (simp add: distinct_values_def)

lemma length_enumerate_from: "length (enumerate_from i rs) = length rs"
  by (induction rs arbitrary: i) auto

lemma position_enumerate_from:
  "map position (enumerate_from i rs) = map (\<lambda>k. Some (i + int k)) [0..<length rs]"
proof (induction rs arbitrary: i)
  case Nil
  then show ?case by simp
next
  case (Cons r rs)
  have "[0..<length (r # rs)] = 0 # map Suc [0..<length rs]"
    by (simp add: upt_conv_Cons map_Suc_upt del: upt_Suc)
  then show ?case using Cons [of "i + 1"] by (simp add: comp_def add.assoc)
qed

lemma enumerate_from_rows:
  "r \<in> set (enumerate_from i rs) \<Longrightarrow> \<exists>r0\<in>set rs. \<exists>j. r = r0\<lparr>position := Some j\<rparr>"
  by (induction rs arbitrary: i) auto

lemma key_enumerate_from:
  "map standings_key (enumerate_from i rs) = map standings_key rs"
  by (induction rs arbitrary: i) (auto simp: standings_key_def)

lemma unplaced_enumerate_from: "map unplaced (enumerate_from i rs) = map unplaced rs"
  by (induction rs arbitrary: i) (auto simp: unplaced_def)

lemma key_ge_refl: "key_ge a a"
  by (simp add: key_ge_def)

lemma key_ge_total: "key_ge a b \<or> key_ge b a"
  by (auto simp: key_ge_def)

lemma key_ge_trans: "key_ge a b \<Longrightarrow> key_ge b c \<Longrightarrow> key_ge a c"
  by (auto simp: key_ge_def)

section \<open>League standings\<close>

text \<open>The teams of the standings are the home sides of the matches of the league and season.\<close>

lemma set_league_teams:
  "set (league_teams db l s) =
     home_team_name ` {m \<in> set (matches db). league_name m = l \<and> season m = s}"
  by (auto simp: league_teams_def set_distinct_values)

lemma team_records_rows:
  assumes "r \<in> set (team_records db ts s)"
  shows "\<exists>t\<in>set ts. query_2_team_season_record db t s = Some r"
  using assms by (auto simp: team_records_def split: option.splits)

lemma team_records_unplaced: "map unplaced (team_records db ts s) = team_records db ts s"
proof -
  have "unplaced r = r" if "r \<in> set (team_records db ts s)" for r
  proof -
    from team_records_rows [OF that] obtain t where "query_2_team_season_record db t s = Some r"
      by blast
    from query_2_fields(7) [OF this] show ?thesis by (simp add: unplaced_def)
  qed
  then show ?thesis by (simp add: map_idI)
qed

text \<open>Without the positions, the standings are the sorted records of the teams.\<close>

lemma standings_unplaced:
  "map unplaced (query_8_league_standings db l s) =
     sort_by (\<lambda>x y. key_ge (standings_key x) (standings_key y))
       (team_records db (league_teams db l s) s)"
proof -
  let ?le = "\<lambda>x y. key_ge (standings_key x) (standings_key y)"
  let ?recs = "team_records db (league_teams db l s) s"
  have "unplaced r = r" if "r \<in> set (sort_by ?le ?recs)" for r
  proof -
    from that have "r \<in> set (map unplaced ?recs)"
      by (simp add: set_sort_by team_records_unplaced)
    then show ?thesis by (auto simp: unplaced_def)
  qed
  then have "map unplaced (sort_by ?le ?recs) = sort_by ?le ?recs"
    by (simp add: map_idI)
  then show ?thesis
    by (simp add: query_8_league_standings_def Let_def unplaced_enumerate_from)
qed

lemma standings_rows:
  assumes "r \<in> set (query_8_league_standings db l s)"
  shows "\<exists>t\<in>set (league_teams db l s). \<exists>r0 j.
           query_2_team_season_record db t s = Some r0 \<and> r = r0\<lparr>position := Some j\<rparr>"
proof -
  from assms obtain r0 j where r0: "r0 \<in> set (team_records db (league_teams db l s) s)"
    and r: "r = r0\<lparr>position := Some j\<rparr>"
    by (auto simp: query_8_league_standings_def Let_def set_sort_by dest!: enumerate_from_rows)
  from team_records_rows [OF r0] r show ?thesis by blast
qed

text \<open>
  C1. The claim gives a row to a team that is only ever the away side. The code asks the
  store for the distinct \<^verbatim>\<open>home_team_name\<close> values: over the one match of A at home
  against B, the standings have the row of A and none for B.
\<close>

theorem away_only_team_has_no_row:
  "map away_team_name (matches db_away_only) = [''B''] \<and>
   map team (query_8_league_standings db_away_only ''L'' ''2020'') = [Some (BStr ''A'')]"
  by (simp add: query_8_league_standings_def league_teams_def team_records_def
      db_away_only_def db_defs q2_defs distinct_values_def sort_by_def)

text \<open>
  C4, amended. The standings are the records of the enumerated teams, each once, sorted
  descending by points, then goal difference: the sequence is non-increasing in the key
  \<open>(points, goal_difference)\<close>, and records with the same key keep the order in which
  their teams were enumerated. The positions are 1, 2, ... in that order, so ties
  receive consecutive positions.
\<close>

theorem standings_sorted_and_numbered:
  "sorted_wrt (\<lambda>x y. key_ge (standings_key x) (standings_key y))
     (query_8_league_standings db l s) \<and>
   map position (query_8_league_standings db l s) =
     map (\<lambda>i. Some (int i)) [1..<Suc (length (query_8_league_standings db l s))] \<and>
   mset (map unplaced (query_8_league_standings db l s)) =
     mset (team_records db (league_teams db l s) s) \<and>
   (\<forall>k. filter (\<lambda>r. standings_key r = k) (map unplaced (query_8_league_standings db l s)) =
        filter (\<lambda>r. standings_key r = k) (team_records db (league_teams db l s) s))"
proof (intro conjI allI)
  let ?le = "\<lambda>x y. key_ge (standings_key x) (standings_key y)"
  let ?recs = "team_records db (league_teams db l s) s"
  have q: "query_8_league_standings db l s = enumerate_from 1 (sort_by ?le ?recs)"
    by (simp add: query_8_league_standings_def Let_def)
  have "sorted_wrt ?le (sort_by ?le ?recs)"
    by (rule sorted_sort_by) (use key_ge_total key_ge_trans in blast)+
  then have "sorted_wrt key_ge (map standings_key (sort_by ?le ?recs))"
    by (simp add: sorted_wrt_map)
  then have "sorted_wrt key_ge (map standings_key (enumerate_from 1 (sort_by ?le ?recs)))"
    by (simp only: key_enumerate_from)
  then show "sorted_wrt ?le (query_8_league_standings db l s)"
    by (simp add: sorted_wrt_map q)
  have "map (\<lambda>k. Some (1 + int k)) [0..<n] = map (\<lambda>i. Some (int i)) [1..<Suc n]" for n
    by (simp add: map_Suc_upt [symmetric] comp_def del: upt_Suc)
  then show "map position (query_8_league_standings db l s) =
     map (\<lambda>i. Some (int i)) [1..<Suc (length (query_8_league_standings db l s))]"
    by (simp add: q position_enumerate_from length_enumerate_from)
  show "mset (map unplaced (query_8_league_standings db l s)) = mset ?recs"
    by (simp only: standings_unplaced mset_sort_by)
  fix k
  have "filter (\<lambda>r. standings_key r = k) (sort_by ?le ?recs) =
          filter (\<lambda>r. standings_key r = k) ?recs"
    by (rule filter_sort_by) (simp add: key_ge_refl)
  then show "filter (\<lambda>r. standings_key r = k) (map unplaced (query_8_league_standings db l s)) =
        filter (\<lambda>r. standings_key r = k) ?recs"
    by (simp only: standings_unplaced)
qed

text \<open>
  A and B have one point and goal difference 0 each; A, without a goal, stands before B,
  with one goal: the standings are not non-increasing in
  \<open>(points, goal_difference, goals_scored)\<close>.
\<close>

theorem standings_third_key_counterexample:
  "\<not> non_increasing_key3 (query_8_league_standings db_tied ''L'' ''2020'')"
  by (simp add: query_8_league_standings_def league_teams_def team_records_def
      db_tied_def db_defs q2_defs distinct_values_def
      sort_by_def key_ge_def standings_key_def key3_ge_def key3_def non_increasing_key3_def)

text \<open>
  C8, amended. Every record of the aggregator has
  \<open>goal_difference = goals_scored - goals_conceded\<close> and \<open>points = 3 * wins + draws\<close>.
  It has \<open>matches_played = wins + draws + losses\<close> when the tallies compare the team
  name as itself (as they do every name that does not start with \<^verbatim>\<open>$\<close>) and no match
  of the team in the season has the team on both sides with unequal goal counts. Every
  row of the standings is, but for its position, the record of an enumerated team, and
  has these properties under the same condition on that team.
\<close>

theorem record_invariants:
  "(query_2_team_season_record db t s = Some r \<longrightarrow>
      goal_difference r = goals_scored r - goals_conceded r \<and>
      points r = 3 * wins r + draws r \<and>
      (tallies_partition db t s \<longrightarrow> matches_played r = wins r + draws r + losses r)) \<and>
   (r \<in> set (query_8_league_standings db l s') \<longrightarrow>
      (\<exists>t'\<in>set (league_teams db l s').
          query_2_team_season_record db t' s' = Some (unplaced r) \<and>
          goal_difference r = goals_scored r - goals_conceded r \<and>
          points r = 3 * wins r + draws r \<and>
          (tallies_partition db t' s' \<longrightarrow> matches_played r = wins r + draws r + losses r)))"
proof (intro conjI impI)
  assume q: "query_2_team_season_record db t s = Some r"
  show "goal_difference r = goals_scored r - goals_conceded r" "points r = 3 * wins r + draws r"
    using query_2_fields(1,2) [OF q] by simp_all
  assume "tallies_partition db t s"
  then show "matches_played r = wins r + draws r + losses r"
    using query_2_played [OF q] by simp
next
  assume "r \<in> set (query_8_league_standings db l s')"
  from standings_rows [OF this] obtain t' r0 j where t': "t' \<in> set (league_teams db l s')"
    and q: "query_2_team_season_record db t' s' = Some r0" and r: "r = r0\<lparr>position := Some j\<rparr>"
    by blast
  have u: "unplaced r = r0"
    using query_2_fields(7) [OF q] r by (simp add: unplaced_def)
  have "goal_difference r = goals_scored r - goals_conceded r" "points r = 3 * wins r + draws r"
    using query_2_fields(1,2) [OF q] r by simp_all
  moreover have "matches_played r = wins r + draws r + losses r" if "tallies_partition db t' s'"
    using query_2_played [OF q that] r by simp
  ultimately show "\<exists>t'\<in>set (league_teams db l s').
          query_2_team_season_record db t' s' = Some (unplaced r) \<and>
          goal_difference r = goals_scored r - goals_conceded r \<and>
          points r = 3 * wins r + draws r \<and>
          (tallies_partition db t' s' \<longrightarrow> matches_played r = wins r + draws r + losses r)"
    using t' q u by blast
qed

text \<open>
  The theorem at the record of A after its two matches against B, and at the row of A
  in the standings of the league.
\<close>

theorem record_invariants_witness:
  "query_2_team_season_record db_scenario ''A'' ''2020'' =
     Some \<lparr>team = Some (BStr ''A''), tsr_season = Some (BStr ''2020''), matches_played = 2,
            wins = 1, draws = 1, losses = 0, goals_scored = 2, goals_conceded = 1,
            goal_difference = 1, points = 4, position = None\<rparr> \<and>
   tallies_partition db_scenario ''A'' ''2020'' \<and>
   \<lparr>team = Some (BStr ''A''), tsr_season = Some (BStr ''2020''), matches_played = 2,
     wins = 1, draws = 1, losses = 0, goals_scored = 2, goals_conceded = 1,
     goal_difference = 1, points = 4, position = Some 1\<rparr>
     \<in> set (query_8_league_standings db_scenario ''L'' ''2020'') \<and>
   (1::int) = 2 - 1 \<and> (4::int) = 3 * 1 + 1 \<and> (2::int) = 1 + 1 + 0"
proof -
  let ?r = "\<lparr>team = Some (BStr ''A''), tsr_season = Some (BStr ''2020''), matches_played = 2,
            wins = 1, draws = 1, losses = 0, goals_scored = 2, goals_conceded = 1,
            goal_difference = 1, points = 4, position = None\<rparr>"
  have q: "query_2_team_season_record db_scenario ''A'' ''2020'' = Some ?r"
    by (simp add: db_scenario_def db_defs q2_defs)
  have p: "tallies_partition db_scenario ''A'' ''2020''"
    by (simp add: tallies_partition_def season_matches_def plain_compared counted_twice_def
        db_scenario_def db_defs)
  have row: "?r\<lparr>position := Some 1\<rparr> \<in> set (query_8_league_standings db_scenario ''L'' ''2020'')"
    by (simp add: query_8_league_standings_def league_teams_def team_records_def
        db_scenario_def db_defs q2_defs distinct_values_def sort_by_def key_ge_def
        standings_key_def)
  from record_invariants [of db_scenario "''A''" "''2020''" ?r "''L''" "''2020''"]
    record_invariants [of db_scenario "''A''" "''2020''" "?r\<lparr>position := Some 1\<rparr>" "''L''" "''2020''"]
    q p row
  show ?thesis by simp
qed

text \<open>
  Over a match of A against itself that A wins 1-0, the record of A has one match played,
  one win and one loss. Over the 1-0 home win of the team named \<^verbatim>\<open>$season\<close>, the record
  asked for under that name has one match played and no win, draw or loss: the operand
  is read as the season of the match, which is the name of neither side.
\<close>

theorem tallies_do_not_add_up_counterexample:
  "map_option played_tallies (query_2_team_season_record db_self_match ''A'' ''2020'') =
     Some (1, 1, 0, 1) \<and>
   map_option played_tallies (query_2_team_season_record db_path_name_home ''$season'' ''2020'') =
     Some (1, 0, 0, 0)"
  by (simp add: db_self_match_def db_path_name_home_def db_defs q2_defs played_tallies_def
      field_defs)

section \<open>Scorelines\<close>

lemma query_6_ranking:
  "query_6_common_scorelines db limit =
     limit_stage db limit (scoreline_ranking (map goal_pair (matches db)))"
proof -
  have "length (filter (\<lambda>m. goal_pair m = k) ms) =
          length (filter (\<lambda>p. p = k) (map goal_pair ms))" for k and ms :: "match_doc list"
    by (simp add: filter_map comp_def)
  then show ?thesis
    by (simp add: query_6_common_scorelines_def scoreline_ranking_def Let_def comp_def)
qed

text \<open>The three listings of a multiset of two equal elements and a third one.\<close>

lemma listings_of_three:
  assumes "mset ps = {#a, a, b#}"
  shows "ps = [a, a, b] \<or> ps = [a, b, a] \<or> ps = [b, a, a]"
proof -
  from assms have "size (mset ps) = 3" by simp
  then have "length ps = 3" by simp
  then obtain x y z where ps: "ps = [x, y, z]"
    by (auto simp: numeral_3_eq_3 length_Suc_conv)
  from assms show ?thesis
    unfolding ps by (auto simp: add_eq_conv_ex)
qed

lemma ranking_of_scenario:
  assumes "mset ps = {#(Some 2, Some 1), (Some 2, Some 1), (Some 1, Some 1)#}"
  shows "scoreline_ranking ps = [row_2_1, row_1_1]"
proof -
  from listings_of_three [OF assms] consider
      "ps = [(Some 2, Some 1), (Some 2, Some 1), (Some 1, Some 1)]"
    | "ps = [(Some 2, Some 1), (Some 1, Some 1), (Some 2, Some 1)]"
    | "ps = [(Some 1, Some 1), (Some 2, Some 1), (Some 2, Some 1)]"
    by blast
  then show ?thesis
    by cases
      (simp_all add: scoreline_ranking_def scoreline_of_def distinct_values_def sort_by_def
        bson_to_string_def to_string_def nat_to_string.simps row_2_1_def row_1_1_def)
qed

text \<open>
  C6, amended. For matches whose goal pairs are the multiset (2,1), (2,1), (1,1), in
  whatever order they are stored, the counter with limit 2 returns the two rows in
  descending order of their counts, each scoreline rendered as \<open><home> - <away>\<close>, with
  a space on each side of the dash: "2 - 1" with 2 occurrences, then "1 - 1" with 1.
  With limit 1 it returns the first of them only.
\<close>

theorem scorelines_scenario:
  assumes "mset (map goal_pair (matches db)) =
             {#(Some 2, Some 1), (Some 2, Some 1), (Some 1, Some 1)#}"
  shows "query_6_common_scorelines db 2 = Inr [row_2_1, row_1_1] \<and>
         query_6_common_scorelines db 1 = Inr [row_2_1]"
  by (simp add: query_6_ranking ranking_of_scenario [OF assms] limit_stage_def)

text \<open>The theorem at the three matches stored with the drawn one first.\<close>

theorem scorelines_scenario_witness:
  "mset (map goal_pair (matches (mk_db [mk_match ''L'' ''2020'' ''B'' ''A'' (Some 1) (Some 1),
                                        mk_match ''L'' ''2020'' ''A'' ''B'' (Some 2) (Some 1),
                                        mk_match ''L'' ''2020'' ''C'' ''D'' (Some 2) (Some 1)]))) =
     {#(Some 2, Some 1), (Some 2, Some 1), (Some 1, Some 1)#} \<and>
   query_6_common_scorelines
     (mk_db [mk_match ''L'' ''2020'' ''B'' ''A'' (Some 1) (Some 1),
             mk_match ''L'' ''2020'' ''A'' ''B'' (Some 2) (Some 1),
             mk_match ''L'' ''2020'' ''C'' ''D'' (Some 2) (Some 1)]) 2 =
     Inr [\<lparr>scoreline = Some ''2 - 1'', home_goals = Some 2, away_goals = Some 1,
            occurrences = 2\<rparr>,
          \<lparr>scoreline = Some ''1 - 1'', home_goals = Some 1, away_goals = Some 1,
            occurrences = 1\<rparr>]"
proof -
  let ?db = "mk_db [mk_match ''L'' ''2020'' ''B'' ''A'' (Some 1) (Some 1),
                    mk_match ''L'' ''2020'' ''A'' ''B'' (Some 2) (Some 1),
                    mk_match ''L'' ''2020'' ''C'' ''D'' (Some 2) (Some 1)]"
  have h: "mset (map goal_pair (matches ?db)) =
             {#(Some 2, Some 1), (Some 2, Some 1), (Some 1, Some 1)#}"
    by (simp add: db_defs goal_pair_def)
  from scorelines_scenario [OF h] h show ?thesis
    by (simp add: row_2_1_def row_1_1_def)
qed

text \<open>The rows are not the ones with the scorelines "2-1" and "1-1".\<close>

theorem scorelines_rendering_counterexample:
  "query_6_common_scorelines db_scorelines 2 \<noteq>
     Inr [\<lparr>scoreline = Some ''2-1'', home_goals = Some 2, away_goals = Some 1,
            occurrences = 2\<rparr>,
          \<lparr>scoreline = Some ''1-1'', home_goals = Some 1, away_goals = Some 1,
            occurrences = 1\<rparr>]"
  by (simp add: query_6_common_scorelines_def db_scorelines_def db_defs goal_pair_def
      scoreline_of_def distinct_values_def sort_by_def limit_stage_def bson_to_string_def
      to_string_def nat_to_string.simps)

section \<open>Players\<close>

lemmas q3_defs = query_3_top_players_by_rating_def unwind_attributes_def lookup_attributes_def
  distinct_values_def sort_by_def limit_stage_def bson_avg_def bson_max_def numbers_def
  bson_round1_def round_half_even_def avg_ge_def

text \<open>The league name has no effect on the result.\<close>

lemma league_filter_ignored:
  "query_3_top_players_by_rating db (Some l) limit = query_3_top_players_by_rating db None limit"
  by (simp add: query_3_top_players_by_rating_def Let_def)

text \<open>
  C2. The claim keeps, under a league filter, only players who appeared in a match of the
  league. The pipeline never uses the filter: in a fact set with one player, one snapshot
  and no match at all, the ranking for league L has that player.
\<close>

theorem league_filter_keeps_player_without_match:
  "matches db_no_matches = [] \<and>
   query_3_top_players_by_rating db_no_matches (Some ''L'') 10 =
     Inr [\<lparr>tp_player_name = ''P'', avg_rating = Some 80, max_rating = Some 80,
           tp_height = None, tp_weight = None, tp_preferred_foot = Some ''right''\<rparr>]"
  by (simp add: db_no_matches_def db_defs q3_defs)

text \<open>With a limit that is not positive the ranker raises exactly when the server does.\<close>

lemma query_3_nonpositive:
  assumes "limit \<le> 0"
  shows "(query_3_top_players_by_rating db league limit = Inl e) =
           (nonpositive_limit db limit = Inl e)"
  using assms
  by (auto simp: query_3_top_players_by_rating_def Let_def limit_stage_def split: sum.splits)

text \<open>
  C5, amended. The ranker does not check the limit and does not clamp it: a limit of 0
  or less goes to the \<^verbatim>\<open>$limit\<close> stage as it is. When the server rejects it, the call
  raises the error of the server and returns no rows, and the route answers with
  status 500, the status of every exception; the call raises only then; and the answer
  of the route is never 400, the status of a bad argument.
\<close>

theorem nonpositive_limit_not_checked:
  assumes "limit \<le> 0"
  shows "(nonpositive_limit db limit = Inl e \<longrightarrow>
            query_3_top_players_by_rating db league limit = Inl e \<and>
            get_top_players db league (Inr limit) = \<lparr>status = 500, body = Inl e\<rparr>) \<and>
         (query_3_top_players_by_rating db league limit = Inl e \<longrightarrow>
            nonpositive_limit db limit = Inl e) \<and>
         status (get_top_players db league (Inr limit)) \<noteq> 400"
  using query_3_nonpositive [OF assms, of db league e]
  by (auto simp: get_top_players_def split: sum.splits)

text \<open>The theorem at limit 0 and a server that rejects it.\<close>

theorem nonpositive_limit_not_checked_witness:
  "(0::int) \<le> 0 \<and> nonpositive_limit db_no_matches 0 = Inl OperationFailure \<and>
   query_3_top_players_by_rating db_no_matches None 0 = Inl OperationFailure \<and>
   get_top_players db_no_matches None (Inr 0) = \<lparr>status = 500, body = Inl OperationFailure\<rparr>"
proof -
  have h: "(0::int) \<le> 0" by simp
  have r: "nonpositive_limit db_no_matches 0 = Inl OperationFailure"
    by (simp add: db_no_matches_def rejects_def)
  from nonpositive_limit_not_checked [OF h, of db_no_matches OperationFailure None] r
  show ?thesis by simp
qed

text \<open>
  With limit 0 the call of the ranker fails with the error of the server, and the route
  answers with status 500.
\<close>

theorem limit_zero_counterexample:
  "get_top_players db_no_matches None (Inr 0) = \<lparr>status = 500, body = Inl OperationFailure\<rparr>"
  by (simp add: get_top_players_def db_no_matches_def db_defs q3_defs)

text \<open>
  C3, amended. The rating series is the empty sequence when no player has the name, and
  also when every player of that name has no snapshot; the function signals nothing in
  either case.
\<close>

theorem rating_series_empty_without_snapshots:
  "((\<forall>p\<in>set (players db). player_name p \<noteq> n) \<longrightarrow>
       query_5_player_attributes_over_time db n = []) \<and>
   ((\<forall>p\<in>set (players db). player_name p = n \<longrightarrow> lookup_attributes db p = []) \<longrightarrow>
       query_5_player_attributes_over_time db n = [])"
proof (intro conjI impI)
  assume "\<forall>p\<in>set (players db). player_name p \<noteq> n"
  then have "filter (\<lambda>p. player_name p = n) (players db) = []"
    by (simp add: filter_empty_conv)
  then show "query_5_player_attributes_over_time db n = []"
    by (simp add: query_5_player_attributes_over_time_def unwind_attributes_def sort_by_Nil)
next
  assume "\<forall>p\<in>set (players db). player_name p = n \<longrightarrow> lookup_attributes db p = []"
  then have "unwind_attributes db (filter (\<lambda>p. player_name p = n) (players db)) = []"
    by (auto simp: unwind_attributes_def)
  then show "query_5_player_attributes_over_time db n = []"
    by (simp add: query_5_player_attributes_over_time_def sort_by_Nil)
qed

text \<open>The theorem at the unknown name Q and at the player P, who has no snapshot.\<close>

theorem rating_series_empty_without_snapshots_witness:
  "query_5_player_attributes_over_time db_no_snapshots ''Q'' = [] \<and>
   query_5_player_attributes_over_time db_no_snapshots ''P'' = []"
proof -
  have h1: "\<forall>p\<in>set (players db_no_snapshots). player_name p \<noteq> ''Q''"
    by (simp add: db_no_snapshots_def mk_player_def)
  have h2: "\<forall>p\<in>set (players db_no_snapshots). player_name p = ''P'' \<longrightarrow>
              lookup_attributes db_no_snapshots p = []"
    by (simp add: db_no_snapshots_def mk_player_def lookup_attributes_def)
  from rating_series_empty_without_snapshots [of db_no_snapshots "''Q''"] h1
    rating_series_empty_without_snapshots [of db_no_snapshots "''P''"] h2
  show ?thesis by blast
qed

text \<open>The only player is P; for the name Q the function returns the empty sequence.\<close>

theorem unknown_player_counterexample:
  "map player_name (players db_no_snapshots) = [''P''] \<and>
   query_5_player_attributes_over_time db_no_snapshots ''Q'' = []"
  by (simp add: db_no_snapshots_def mk_player_def query_5_player_attributes_over_time_def
      unwind_attributes_def sort_by_def)


end
